theory Spec2Isabelle
  imports Complex_Main
begin

section \<open>JavaScript values used by the library\<close>

text \<open>
  The library is plain JavaScript (\<^verbatim>\<open>src/index.js\<close>). A \<^verbatim>\<open>throw\<close> and a
  run-time \<^verbatim>\<open>TypeError\<close> are values of \<open>error\<close>; a function that can raise
  returns \<open>error + 'a\<close> with \<open>Inl\<close> for the raise.

  Numbers: the playback arithmetic is given over exact reals, and the time path once
  more over doubles with overflow, \<^verbatim>\<open>Infinity\<close> and \<^verbatim>\<open>NaN\<close> (\<open>number\<close>).
  In the real-valued part a result that JavaScript would report as \<^verbatim>\<open>NaN\<close> or
  \<^verbatim>\<open>Infinity\<close> is either made explicit (\<open>None\<close>) or excluded by a stated
  hypothesis. Rounding of finite results and the sign of zero are not modelled.
  Strings are \<open>char list\<close>s, one \<open>char\<close> per code unit.
\<close>

datatype error =
    TypeError
  | SyntaxError
  | NotAnArray
  | LineShapeError
  | JsonShapeError
  | XyzColumnsError
  | CsvTooManyColumns int

text \<open>
  \<open>SyntaxError\<close> is what \<^verbatim>\<open>JSON.parse\<close> raises. The thrown strings:
  \<open>LineShapeError\<close> is \<^verbatim>\<open>"Provided text should be line-separated JSON representations of 3-element X,Y,Z arrays."\<close>,
  \<open>JsonShapeError\<close> is \<^verbatim>\<open>"Provided JSON must represent an array containing 3-element X,Y,Z arrays."\<close>,
  \<open>XyzColumnsError\<close> is \<^verbatim>\<open>"xyzColumns should contain 3 integers corresponding to X, Y and Z column numbers (0-based)."\<close>,
  \<open>CsvTooManyColumns n\<close> is
  \<^verbatim>\<open>`Selected coordinate CSV file has more than ${n} columns! Rejecting.`\<close>.
\<close>

section \<open>Strings and numbers of the host language\<close>

text \<open>
  \<^verbatim>\<open>str.split(sep)\<close> for a one-character separator: the pieces between the
  separators, so \<open>n\<close> separators give \<open>n + 1\<close> pieces and the empty string gives
  one empty piece.
\<close>

fun split_on :: "char \<Rightarrow> string \<Rightarrow> string list" where
  "split_on c [] = [[]]"
| "split_on c (x # xs) =
     (if x = c then [] # split_on c xs
      else (case split_on c xs of
              [] \<Rightarrow> [[x]]
            | w # ws \<Rightarrow> (x # w) # ws))"

text \<open>
  White space as \<^verbatim>\<open>trim\<close>, \<^verbatim>\<open>parseFloat\<close> and \<^verbatim>\<open>parseInt\<close> skip it,
  restricted to one-byte characters: space, tab, line feed, vertical tab, form feed,
  carriage return.
\<close>

definition is_whitespace :: "char \<Rightarrow> bool" where
  "is_whitespace c \<longleftrightarrow> c \<in> set [CHR '' '', CHR 0x09, CHR 0x0A, CHR 0x0B, CHR 0x0C, CHR 0x0D]"

definition trim :: "string \<Rightarrow> string" where
  "trim s = rev (dropWhile is_whitespace (rev (dropWhile is_whitespace s)))"

definition toLowerCase_char :: "char \<Rightarrow> char" where
  "toLowerCase_char c =
     (case map_of (zip ''ABCDEFGHIJKLMNOPQRSTUVWXYZ'' ''abcdefghijklmnopqrstuvwxyz'') c of
        Some l \<Rightarrow> l
      | None \<Rightarrow> c)"

definition toLowerCase :: "string \<Rightarrow> string" where
  "toLowerCase s = map toLowerCase_char s"

definition is_digit :: "char \<Rightarrow> bool" where
  "is_digit c \<longleftrightarrow> c \<in> set ''0123456789''"

definition digit_value :: "char \<Rightarrow> nat" where
  "digit_value c =
     (case map_of (zip ''0123456789'' [0, 1, 2, 3, 4, 5, 6, 7, 8, 9]) c of
        Some d \<Rightarrow> d
      | None \<Rightarrow> 0)"

definition digits_value :: "string \<Rightarrow> nat" where
  "digits_value ds = foldl (\<lambda>acc c. acc * 10 + digit_value c) 0 ds"

text \<open>
  A number as the decoders produce it: \<^verbatim>\<open>parseFloat\<close> answers
  \<^verbatim>\<open>NaN\<close> for a cell without a numeric prefix and \<^verbatim>\<open>Infinity\<close> for that
  literal. A finite value is the exact decimal value of the text.
\<close>

datatype number = Finite real | NaN | PosInfinity | NegInfinity

text \<open>An optional sign in front of the rest of the text.\<close>

fun take_sign :: "string \<Rightarrow> bool \<times> string" where
  "take_sign [] = (False, [])"
| "take_sign (c # cs) =
     (if c = CHR ''-'' then (True, cs)
      else if c = CHR ''+'' then (False, cs)
      else (False, c # cs))"

text \<open>
  The exponent part \<^verbatim>\<open>e\<close> or \<^verbatim>\<open>E\<close>, optional sign, digits; 0 when the text
  does not continue with a complete exponent.
\<close>

definition exponent_of :: "string \<Rightarrow> int" where
  "exponent_of s =
     (case s of
        [] \<Rightarrow> 0
      | c # cs \<Rightarrow>
          (if c = CHR ''e'' \<or> c = CHR ''E'' then
             (let (neg, r) = take_sign cs; ds = takeWhile is_digit r
              in if ds = [] then 0
                 else if neg then - int (digits_value ds) else int (digits_value ds))
           else 0))"

definition scale10 :: "real \<Rightarrow> int \<Rightarrow> real" where
  "scale10 m e = (if 0 \<le> e then m * 10 ^ nat e else m / 10 ^ nat (- e))"

text \<open>
  \<^verbatim>\<open>parseFloat(text)\<close>: leading white space is skipped, then the longest prefix
  of the form sign, digits, fraction, exponent (or \<^verbatim>\<open>Infinity\<close>) is read; what
  follows is ignored; without such a prefix the answer is \<^verbatim>\<open>NaN\<close>.
\<close>

definition parseFloat :: "string \<Rightarrow> number" where
  "parseFloat s =
     (let (neg, u) = take_sign (dropWhile is_whitespace s) in
      if take 8 u = ''Infinity'' then (if neg then NegInfinity else PosInfinity)
      else
        (let ip = takeWhile is_digit u;
             r1 = dropWhile is_digit u;
             dot = (r1 \<noteq> [] \<and> hd r1 = CHR ''.'');
             fp = (if dot then takeWhile is_digit (tl r1) else []);
             r2 = (if dot then dropWhile is_digit (tl r1) else r1)
         in if ip = [] \<and> fp = [] then NaN
            else
              (let m = scale10
                         (real (digits_value ip) + real (digits_value fp) / 10 ^ length fp)
                         (exponent_of r2)
               in Finite (if neg then - m else m))))"

text \<open>
  \<^verbatim>\<open>parseFloat(fields[i])\<close> where \<^verbatim>\<open>fields[i]\<close> may be \<^verbatim>\<open>undefined\<close>
  (\<open>None\<close>): the text \<^verbatim>\<open>"undefined"\<close> has no numeric prefix.
\<close>

definition parseFloat_of :: "string option \<Rightarrow> number" where
  "parseFloat_of cell = (case cell of None \<Rightarrow> NaN | Some s \<Rightarrow> parseFloat s)"

text \<open>\<^verbatim>\<open>parseInt(text, 10)\<close>; \<open>None\<close> is \<^verbatim>\<open>NaN\<close>.\<close>

definition parseInt10 :: "string \<Rightarrow> int option" where
  "parseInt10 s =
     (let (neg, u) = take_sign (dropWhile is_whitespace s); ds = takeWhile is_digit u
      in if ds = [] then None
         else Some (if neg then - int (digits_value ds) else int (digits_value ds)))"

text \<open>
  Arrays with holes are lists of options. \<^verbatim>\<open>arr[i]\<close> reads \<^verbatim>\<open>undefined\<close>
  (\<open>None\<close>) at a hole and outside the array; \<^verbatim>\<open>arr[i] = v\<close> beyond the end
  leaves holes in between.
\<close>

definition field_at :: "'a list \<Rightarrow> int \<Rightarrow> 'a option" where
  "field_at xs i = (if 0 \<le> i \<and> i < int (length xs) then Some (xs ! nat i) else None)"

definition sparse_set :: "'a option list \<Rightarrow> nat \<Rightarrow> 'a \<Rightarrow> 'a option list" where
  "sparse_set xs i v =
     (if i < length xs then xs[i := Some v]
      else xs @ replicate (i - length xs) None @ [Some v])"

text \<open>
  Reading and writing an array under a computed key (\<open>None\<close> is \<^verbatim>\<open>NaN\<close>). A key
  that is not an array index (\<^verbatim>\<open>NaN\<close>, negative, or at least \<open>2\<^sup>3\<^sup>2 - 1\<close>)
  names a property beside the elements: \<^verbatim>\<open>map\<close> and the decoded result never
  see it, so such a write leaves the elements as they are.
\<close>

definition array_load :: "'a option list \<Rightarrow> int option \<Rightarrow> 'a option" where
  "array_load xs key =
     (case key of
        None \<Rightarrow> None
      | Some i \<Rightarrow> (if 0 \<le> i \<and> i < int (length xs) then xs ! nat i else None))"

definition array_store :: "'a option list \<Rightarrow> int option \<Rightarrow> 'a \<Rightarrow> 'a option list" where
  "array_store xs key v =
     (case key of
        None \<Rightarrow> xs
      | Some i \<Rightarrow> (if 0 \<le> i \<and> i < 4294967295 then sparse_set xs (nat i) v else xs))"

section \<open>Coordinate File Decoders\<close>

subsection \<open>JSON coordinate files\<close>

text \<open>
  What \<^verbatim>\<open>JSON.parse\<close> returns. The parser belongs to the host language: the
  decoders take it as the parameter \<open>parse\<close>. In an object, a later member wins over
  an earlier one of the same name.
\<close>

datatype json =
    JNull
  | JBool bool
  | JNumber real
  | JString string
  | JArray "json list"
  | JObject "(string \<times> json) list"

text \<open>
  \<^verbatim>\<open>row.length === 3 && row.every(x => typeof x === "number")\<close> on one element
  of the parsed array. Reading \<^verbatim>\<open>length\<close> of \<^verbatim>\<open>null\<close> raises; a number or
  a boolean has no \<^verbatim>\<open>length\<close>; a string or an object whose \<^verbatim>\<open>length\<close> is 3
  has no callable \<^verbatim>\<open>every\<close>, so the call raises.
\<close>

fun is_number :: "json \<Rightarrow> bool" where
  "is_number (JNumber x) = True"
| "is_number _ = False"

fun row_check :: "json \<Rightarrow> error + bool" where
  "row_check JNull = Inl TypeError"
| "row_check (JBool b) = Inr False"
| "row_check (JNumber x) = Inr False"
| "row_check (JString s) = (if length s = 3 then Inl TypeError else Inr False)"
| "row_check (JArray xs) = Inr (length xs = 3 \<and> list_all is_number xs)"
| "row_check (JObject members) =
     (if map_of (rev members) ''length'' = Some (JNumber 3) then Inl TypeError else Inr False)"

text \<open>
  \<^verbatim>\<open>array.every(callback)\<close>: stops with \<^verbatim>\<open>false\<close> at the first element the
  callback rejects, and with the raise at the first element where the callback raises.
\<close>

fun every :: "('a \<Rightarrow> error + bool) \<Rightarrow> 'a list \<Rightarrow> error + bool" where
  "every f [] = Inr True"
| "every f (x # xs) =
     (case f x of
        Inl e \<Rightarrow> Inl e
      | Inr ok \<Rightarrow> (if ok then every f xs else Inr False))"

text \<open>
  \<^verbatim>\<open>LineDelimitedJsonArrayCoordinateDecoder.decode\<close>: lines longer than two
  characters are parsed one by one; the result is refused unless every row passes.
\<close>

fun parse_all :: "(string \<Rightarrow> error + json) \<Rightarrow> string list \<Rightarrow> error + json list" where
  "parse_all parse [] = Inr []"
| "parse_all parse (l # ls) =
     (case parse l of
        Inl e \<Rightarrow> Inl e
      | Inr v \<Rightarrow>
          (case parse_all parse ls of
             Inl e \<Rightarrow> Inl e
           | Inr vs \<Rightarrow> Inr (v # vs)))"

definition LineDelimitedJsonArrayCoordinateDecoder_decode ::
  "(string \<Rightarrow> error + json) \<Rightarrow> string \<Rightarrow> error + json list" where
  "LineDelimitedJsonArrayCoordinateDecoder_decode parse inputString =
     (case parse_all parse (filter (\<lambda>line. length line > 2) (split_on CHR 0x0A inputString)) of
        Inl e \<Rightarrow> Inl e
      | Inr geometry \<Rightarrow>
          (case every row_check geometry of
             Inl e \<Rightarrow> Inl e
           | Inr ok \<Rightarrow> (if \<not> ok then Inl LineShapeError else Inr geometry)))"

text \<open>
  \<^verbatim>\<open>JsonArrayCoordinateDecoder.decode\<close> once \<^verbatim>\<open>JSON.parse\<close> has returned an
  array \<open>geometry\<close>:
  \<^verbatim>\<open>if(!(geometry.length >= 1) || geometry.every(row => ...)) throw ...; return geometry;\<close>
  The second operand of \<^verbatim>\<open>||\<close> is the \<^verbatim>\<open>every\<close> itself, not its negation.
\<close>

definition decode_geometry :: "json list \<Rightarrow> error + json list" where
  "decode_geometry geometry =
     (if \<not> (length geometry \<ge> 1) then Inl JsonShapeError
      else (case every row_check geometry of
              Inl e \<Rightarrow> Inl e
            | Inr ok \<Rightarrow> (if ok then Inl JsonShapeError else Inr geometry)))"

text \<open>
  The whole call. When \<^verbatim>\<open>JSON.parse\<close> returns a value that is not an array, the
  test raises in every case (the thrown text, or a \<^verbatim>\<open>TypeError\<close> at \<^verbatim>\<open>.length\<close>
  or \<^verbatim>\<open>.every\<close>, by the value's own \<^verbatim>\<open>length\<close>); \<open>NotAnArray\<close> stands for
  these raises.
\<close>

definition JsonArrayCoordinateDecoder_decode ::
  "(string \<Rightarrow> error + json) \<Rightarrow> string \<Rightarrow> error + json list" where
  "JsonArrayCoordinateDecoder_decode parse inputString =
     (case parse inputString of
        Inl e \<Rightarrow> Inl e
      | Inr (JArray geometry) \<Rightarrow> decode_geometry geometry
      | Inr _ \<Rightarrow> Inl NotAnArray)"

subsection \<open>CSV coordinate files\<close>

record CsvCoordinateDecoder =
  xyzColumns :: "int list"
  skipRowCount :: int
  validationMaxColumns :: int

text \<open>
  The constructor; its defaults are \<open>[0, 1, 2]\<close>, 0 and 10.
\<close>

definition CsvCoordinateDecoder_new ::
  "int list \<Rightarrow> int \<Rightarrow> int \<Rightarrow> error + CsvCoordinateDecoder" where
  "CsvCoordinateDecoder_new xyz skip maxColumns =
     (if length xyz \<noteq> 3 then Inl XyzColumnsError
      else Inr \<lparr> xyzColumns = xyz, skipRowCount = skip, validationMaxColumns = maxColumns \<rparr>)"

definition default_CsvCoordinateDecoder :: CsvCoordinateDecoder where
  "default_CsvCoordinateDecoder =
     \<lparr> xyzColumns = [0, 1, 2], skipRowCount = 0, validationMaxColumns = 10 \<rparr>"

text \<open>\<^verbatim>\<open>line.replace(/[^,]/g, '').length\<close>: the number of commas of the line.\<close>

definition comma_count :: "string \<Rightarrow> nat" where
  "comma_count line = length (filter (\<lambda>c. c = CHR '','') line)"

text \<open>
  \<^verbatim>\<open>lines.splice(0, this.skipRowCount)\<close> under the guard
  \<^verbatim>\<open>this.skipRowCount > 0\<close>.
\<close>

definition skip_rows :: "int \<Rightarrow> string list \<Rightarrow> string list" where
  "skip_rows n lines = (if n > 0 then drop (nat n) lines else lines)"

text \<open>
  The chain of \<^verbatim>\<open>decode\<close> over the kept lines: split the trimmed line at commas,
  keep the rows with enough fields to read the highest selected column, read the three
  selected cells with \<^verbatim>\<open>parseFloat\<close>.
\<close>

definition csv_rows :: "CsvCoordinateDecoder \<Rightarrow> string list \<Rightarrow> number list list" where
  "csv_rows d lines =
     (let fieldX = xyzColumns d ! 0;
          fieldY = xyzColumns d ! 1;
          fieldZ = xyzColumns d ! 2;
          highestFieldIndex = max fieldX (max fieldY fieldZ)
      in map (\<lambda>fields. map (\<lambda>c. parseFloat_of (field_at fields c)) [fieldX, fieldY, fieldZ])
           (filter (\<lambda>fields. int (length fields) > highestFieldIndex)
              (map (\<lambda>ln. split_on CHR '','' (trim ln)) lines)))"

text \<open>
  \<^verbatim>\<open>decode\<close>: the comma test runs on the lines left after the skip, before any
  row is read. The decoder comes from the constructor, so \<open>xyzColumns\<close> has three
  entries.
\<close>

definition CsvCoordinateDecoder_decode ::
  "CsvCoordinateDecoder \<Rightarrow> string \<Rightarrow> error + number list list" where
  "CsvCoordinateDecoder_decode d inputString =
     (let lines = skip_rows (skipRowCount d) (split_on CHR 0x0A inputString)
      in if list_ex (\<lambda>line. int (comma_count line) \<ge> validationMaxColumns d) lines
         then Inl (CsvTooManyColumns (validationMaxColumns d))
         else Inr (csv_rows d lines))"

section \<open>Coordinate Mapping\<close>

text \<open>
  \<^verbatim>\<open>class CoordinateMapping\<close>: the held array \<open>mapping\<close> and the decoder it loads
  with. \<open>'v\<close> is the type of the array's elements and of the caller's default.
\<close>

record 'v CoordinateMapping =
  mapping :: "'v list"
  decoder :: "string \<Rightarrow> error + 'v list"

definition CoordinateMapping_new :: "(string \<Rightarrow> error + 'v list) \<Rightarrow> 'v CoordinateMapping" where
  "CoordinateMapping_new d = \<lparr> mapping = [], decoder = d \<rparr>"

definition load :: "string \<Rightarrow> 'v CoordinateMapping \<Rightarrow> error + 'v CoordinateMapping" where
  "load data m =
     (case decoder m data of
        Inl e \<Rightarrow> Inl e
      | Inr g \<Rightarrow> Inr (m\<lparr>mapping := g\<rparr>))"

text \<open>
  \<^verbatim>\<open>idxToCoord(idx, defaultValue = null)\<close> for an integer \<open>idx\<close>:
  \<^verbatim>\<open>if(idx < 0 || idx >= this.mapping.length) return defaultValue; return this.mapping[idx];\<close>
  The result is an element of the held array or the caller's default; \<open>None\<close> is
  JavaScript's \<^verbatim>\<open>null\<close>, the default of the parameter.
\<close>

definition idxToCoord :: "'v CoordinateMapping \<Rightarrow> int \<Rightarrow> 'v option \<Rightarrow> 'v option" where
  "idxToCoord m idx defaultValue =
     (if idx < 0 \<or> idx \<ge> int (length (mapping m)) then defaultValue
      else Some (mapping m ! nat idx))"

definition allCoords :: "'v CoordinateMapping \<Rightarrow> 'v list" where
  "allCoords m = mapping m"

section \<open>Animation CSV File Decoder\<close>

text \<open>
  A pixel is the array of its channel values; a frame is an array of mapped pixels; both
  may have holes. The decoder object holds the rows to skip, the \<^verbatim>\<open>Map\<close> from
  component name to channel position, and the two mapper functions.
\<close>

type_synonym pixel = "number option list"

record ('p, 'f) CsvAnimationDecoder =
  anim_skipRowCount :: int
  components :: "string \<rightharpoonup> nat"
  pixelMapper :: "pixel \<Rightarrow> 'p"
  frameMapper :: "'p option list \<Rightarrow> 'f"

text \<open>
  \<^verbatim>\<open>components.forEach((c, idx) => this.components.set(c, idx))\<close>: a name listed
  twice keeps its last position.
\<close>

fun set_components :: "nat \<Rightarrow> string list \<Rightarrow> (string \<rightharpoonup> nat) \<Rightarrow> (string \<rightharpoonup> nat)" where
  "set_components idx [] m = m"
| "set_components idx (c # cs) m = set_components (Suc idx) cs (m(c \<mapsto> idx))"

text \<open>
  The constructor without \<^verbatim>\<open>outputHexColors\<close> and without custom mappers: both
  mappers are the identity. (With those options the constructor stores other functions
  in the two mapper fields; \<open>decode\<close> below takes whatever the fields hold.)
\<close>

definition CsvAnimationDecoder_new ::
  "int \<Rightarrow> string list \<Rightarrow> (pixel, pixel option list) CsvAnimationDecoder" where
  "CsvAnimationDecoder_new skip comps =
     \<lparr> anim_skipRowCount = skip,
       components = set_components 0 comps Map.empty,
       pixelMapper = (\<lambda>rgb. rgb),
       frameMapper = (\<lambda>pixels. pixels) \<rparr>"

definition default_CsvAnimationDecoder :: "(pixel, pixel option list) CsvAnimationDecoder" where
  "default_CsvAnimationDecoder = CsvAnimationDecoder_new 0 [''r'', ''g'', ''b'']"

record column =
  component :: string
  pixel :: "int option"

text \<open>
  \<^verbatim>\<open>decodeHeadingRow\<close>: a label that does not split at underscores into exactly two
  parts, or whose first part is not a component, leaves its column unmapped (\<open>None\<close>).
\<close>

definition heading_column :: "('p, 'f) CsvAnimationDecoder \<Rightarrow> string \<Rightarrow> column option" where
  "heading_column d field =
     (let parts = split_on CHR ''_'' field
      in if length parts \<noteq> 2 \<or> components d (parts ! 0) = None then None
         else Some \<lparr> component = parts ! 0, pixel = parseInt10 (parts ! 1) \<rparr>)"

definition decodeHeadingRow ::
  "('p, 'f) CsvAnimationDecoder \<Rightarrow> string \<Rightarrow> nat \<times> column option list" where
  "decodeHeadingRow d line =
     (let fields = split_on CHR '','' (toLowerCase line)
      in (length fields, map (heading_column d) fields))"

text \<open>
  The loop over \<open>columnIndex\<close> of one data row with the fields \<open>cells\<close>; \<open>cols\<close>
  are the heading's columns from \<open>columnIndex\<close> on.
  \<^verbatim>\<open>const pixelObj = pixels[pixelIdx] || [];\<close>
  \<^verbatim>\<open>pixelObj[this.components.get(component)] = parseFloat(fields[columnIndex]);\<close>
  \<^verbatim>\<open>pixels[pixelIdx] = pixelObj;\<close>
\<close>

fun row_pixels ::
  "('p, 'f) CsvAnimationDecoder \<Rightarrow> string list \<Rightarrow> column option list \<Rightarrow> nat \<Rightarrow>
   pixel option list \<Rightarrow> pixel option list" where
  "row_pixels d cells [] columnIndex pixels = pixels"
| "row_pixels d cells (None # cols) columnIndex pixels =
     row_pixels d cells cols (Suc columnIndex) pixels"
| "row_pixels d cells (Some m # cols) columnIndex pixels =
     (let pixelObj = (case array_load pixels (pixel m) of Some p \<Rightarrow> p | None \<Rightarrow> []);
          pixelObj' = array_store pixelObj (map_option int (components d (component m)))
                        (parseFloat_of (field_at cells (int columnIndex)))
      in row_pixels d cells cols (Suc columnIndex) (array_store pixels (pixel m) pixelObj'))"

text \<open>
  \<^verbatim>\<open>decode\<close>: with no line left for the heading, \<^verbatim>\<open>lines.splice(0, 1)[0]\<close> is
  \<^verbatim>\<open>undefined\<close> and \<^verbatim>\<open>toLowerCase\<close> raises.
\<close>

definition CsvAnimationDecoder_decode ::
  "('p, 'f) CsvAnimationDecoder \<Rightarrow> string \<Rightarrow> error + 'f list" where
  "CsvAnimationDecoder_decode d inputString =
     (case skip_rows (anim_skipRowCount d) (split_on CHR 0x0A inputString) of
        [] \<Rightarrow> Inl TypeError
      | heading # lines \<Rightarrow>
          (let (totalColumnCount, columnMapping) = decodeHeadingRow d heading
           in Inr
             (map (frameMapper d)
                (map (\<lambda>line. map (map_option (pixelMapper d)) line)
                   (map (\<lambda>cells. row_pixels d cells columnMapping 0 [])
                      (filter (\<lambda>cells. length cells \<ge> totalColumnCount)
                         (map (split_on CHR '','') lines)))))))"

section \<open>Real-time simulation manager\<close>

subsection \<open>Number operators\<close>

text \<open>
  \<^verbatim>\<open>a % b\<close> on finite numbers with \<open>b \<noteq> 0\<close>: the remainder of the division
  truncated towards zero, so the result has the sign of the dividend.
  (\<^verbatim>\<open>a % 0\<close> is \<^verbatim>\<open>NaN\<close>; the callers below treat that case themselves.)
\<close>

definition js_trunc :: "real \<Rightarrow> int" where
  "js_trunc x = (if 0 \<le> x then \<lfloor>x\<rfloor> else \<lceil>x\<rceil>)"

definition js_rem :: "real \<Rightarrow> real \<Rightarrow> real" where
  "js_rem a b = a - b * of_int (js_trunc (a / b))"

text \<open>
  \<^verbatim>\<open>xs[i]\<close> for a number \<open>i\<close> (\<open>None\<close> is \<^verbatim>\<open>NaN\<close>): the element when \<open>i\<close>
  is an integer inside the array, \<^verbatim>\<open>undefined\<close> (\<open>None\<close>) otherwise.
\<close>

definition js_index :: "'a list \<Rightarrow> real option \<Rightarrow> 'a option" where
  "js_index xs i =
     (case i of
        None \<Rightarrow> None
      | Some r \<Rightarrow>
          (if 0 \<le> r \<and> r < real (length xs) \<and> r = of_int \<lfloor>r\<rfloor>
           then Some (xs ! nat \<lfloor>r\<rfloor>) else None))"

subsection \<open>State\<close>

text \<open>
  The fields of \<^verbatim>\<open>class ChristmasTreeSimulator\<close>; \<open>priv_currentTime\<close> is the
  backing field \<^verbatim>\<open>_currentTime\<close>. A frame is an array of pixels that may have
  holes (\<open>None\<close>), as the animation decoder builds it; \<open>coordinateMapping = None\<close>
  is \<^verbatim>\<open>null\<close>.
\<close>

record ('p, 'v) ChristmasTreeSimulator =
  priv_currentTime :: real
  inititalPlaybackRate :: real
  playbackRate :: real
  baseFrameRate :: real
  isPlaying :: bool
  startPlaying :: bool
  dirty :: bool
  dirtyGeometry :: bool
  animationFrames :: "'p option list list"
  coordinateMapping :: "'v CoordinateMapping option"

text \<open>The constructor's options, each with the default of the destructuring pattern.\<close>

record simulator_options =
  opt_startPlaying :: bool
  opt_startTime :: real
  opt_inititalPlaybackRate :: real
  opt_baseFrameRate :: real

definition default_options :: simulator_options where
  "default_options =
     \<lparr> opt_startPlaying = False, opt_startTime = 0,
       opt_inititalPlaybackRate = 1, opt_baseFrameRate = 60 \<rparr>"

subsection \<open>Getters and the time setter\<close>

definition frameCount :: "('p, 'v) ChristmasTreeSimulator \<Rightarrow> nat" where
  "frameCount s = length (animationFrames s)"

text \<open>
  \<^verbatim>\<open>1 / this.baseFrameRate\<close>. For \<open>baseFrameRate = 0\<close> JavaScript gives
  \<^verbatim>\<open>Infinity\<close>, which the reals do not have: the theorems that depend on this
  quotient assume a nonzero rate.
\<close>

definition frameDuration :: "('p, 'v) ChristmasTreeSimulator \<Rightarrow> real" where
  "frameDuration s = 1 / baseFrameRate s"

definition duration :: "('p, 'v) ChristmasTreeSimulator \<Rightarrow> real" where
  "duration s = max (1 / 1000000000) (real (frameCount s) * frameDuration s)"

definition currentTime :: "('p, 'v) ChristmasTreeSimulator \<Rightarrow> real" where
  "currentTime s = js_rem (priv_currentTime s) (duration s)"

definition set_currentTime ::
  "real \<Rightarrow> ('p, 'v) ChristmasTreeSimulator \<Rightarrow> ('p, 'v) ChristmasTreeSimulator" where
  "set_currentTime val s =
     s\<lparr> priv_currentTime :=
          (if val < 0 then js_rem val (duration s) + duration s else val),
        dirty := True \<rparr>"

text \<open>
  \<^verbatim>\<open>Math.floor(this.currentTime / this.frameDuration) % this.frameCount\<close>;
  with no frames the remainder by 0 is \<^verbatim>\<open>NaN\<close> (\<open>None\<close>).
\<close>

definition currentFrameIdx :: "('p, 'v) ChristmasTreeSimulator \<Rightarrow> real option" where
  "currentFrameIdx s =
     (if frameCount s = 0 then None
      else Some (js_rem (of_int \<lfloor>currentTime s / frameDuration s\<rfloor>) (real (frameCount s))))"

definition currentProgress :: "('p, 'v) ChristmasTreeSimulator \<Rightarrow> real option" where
  "currentProgress s =
     (case currentFrameIdx s of
        None \<Rightarrow> None
      | Some i \<Rightarrow> Some (i / real (frameCount s)))"

definition set_currentProgress ::
  "real \<Rightarrow> ('p, 'v) ChristmasTreeSimulator \<Rightarrow> ('p, 'v) ChristmasTreeSimulator" where
  "set_currentProgress progress s =
     set_currentTime (of_int \<lfloor>progress * real (frameCount s)\<rfloor> * frameDuration s) s"

subsection \<open>Constructor\<close>

text \<open>
  The constructor writes \<^verbatim>\<open>this.currentTime = startTime\<close> before any other field
  exists. For a negative \<open>startTime\<close> the setter reads \<^verbatim>\<open>this.duration\<close>, hence
  \<^verbatim>\<open>this.animationFrames.length\<close> of an undefined field: a \<^verbatim>\<open>TypeError\<close>.
  Otherwise the value is stored as it is.
\<close>

definition ChristmasTreeSimulator_new ::
  "simulator_options \<Rightarrow> error + ('p, 'v) ChristmasTreeSimulator" where
  "ChristmasTreeSimulator_new opts =
     (if opt_startTime opts < 0 then Inl TypeError
      else Inr \<lparr> priv_currentTime = opt_startTime opts,
                 inititalPlaybackRate = opt_inititalPlaybackRate opts,
                 playbackRate = opt_inititalPlaybackRate opts,
                 baseFrameRate = opt_baseFrameRate opts,
                 isPlaying = opt_startPlaying opts,
                 startPlaying = opt_startPlaying opts,
                 dirty = True,
                 dirtyGeometry = True,
                 animationFrames = [],
                 coordinateMapping = None \<rparr>)"

subsection \<open>Methods\<close>

text \<open>
  \<^verbatim>\<open>frame.map(callback)\<close> on an array with holes: the callback runs on the
  elements that are present, in index order; a hole stays a hole; the first raise of the
  callback ends the call.
\<close>

fun array_map :: "(nat \<Rightarrow> 'a \<Rightarrow> error + 'b) \<Rightarrow> nat \<Rightarrow> 'a option list \<Rightarrow> error + 'b option list" where
  "array_map cb i [] = Inr []"
| "array_map cb i (None # xs) =
     (case array_map cb (Suc i) xs of
        Inl e \<Rightarrow> Inl e
      | Inr ys \<Rightarrow> Inr (None # ys))"
| "array_map cb i (Some x # xs) =
     (case cb i x of
        Inl e \<Rightarrow> Inl e
      | Inr y \<Rightarrow>
          (case array_map cb (Suc i) xs of
             Inl e \<Rightarrow> Inl e
           | Inr ys \<Rightarrow> Inr (Some y # ys)))"

record ('p, 'v) mapped_pixel =
  position :: "'v option"
  color :: 'p

text \<open>
  \<^verbatim>\<open>getCurrentFrameMapped()\<close>: \<^verbatim>\<open>frame.map\<close> raises when the indexed frame is
  \<^verbatim>\<open>undefined\<close>, and the callback raises when \<^verbatim>\<open>this.coordinateMapping\<close> is
  \<^verbatim>\<open>null\<close>.
\<close>

definition getCurrentFrameMapped ::
  "('p, 'v) ChristmasTreeSimulator \<Rightarrow> error + ('p, 'v) mapped_pixel option list" where
  "getCurrentFrameMapped s =
     (case js_index (animationFrames s) (currentFrameIdx s) of
        None \<Rightarrow> Inl TypeError
      | Some frame \<Rightarrow>
          array_map
            (\<lambda>idx pixel.
               case coordinateMapping s of
                 None \<Rightarrow> Inl TypeError
               | Some m \<Rightarrow> Inr \<lparr> position = idxToCoord m (int idx) None, color = pixel \<rparr>)
            0 frame)"

text \<open>
  The options of \<^verbatim>\<open>resetPlayback\<close>; \<open>None\<close> is an omitted (\<^verbatim>\<open>undefined\<close>)
  option. \<open>startTime\<close> has the default 0; \<open>baseFrameRate\<close> has no \<^verbatim>\<open>else\<close>
  branch in the source.
\<close>

record reset_options =
  ro_startPlaying :: "bool option"
  ro_playbackRate :: "real option"
  ro_baseFrameRate :: "real option"
  ro_startTime :: "real option"

definition no_reset_options :: reset_options where
  "no_reset_options =
     \<lparr> ro_startPlaying = None, ro_playbackRate = None,
       ro_baseFrameRate = None, ro_startTime = None \<rparr>"

definition resetPlayback ::
  "reset_options \<Rightarrow> ('p, 'v) ChristmasTreeSimulator \<Rightarrow> ('p, 'v) ChristmasTreeSimulator" where
  "resetPlayback r s =
     (let s1 = s\<lparr> isPlaying := (case ro_startPlaying r of Some b \<Rightarrow> b | None \<Rightarrow> startPlaying s) \<rparr>;
          s2 = s1\<lparr> playbackRate :=
                    (case ro_playbackRate r of Some x \<Rightarrow> x | None \<Rightarrow> inititalPlaybackRate s1) \<rparr>;
          s3 = (case ro_baseFrameRate r of Some x \<Rightarrow> s2\<lparr> baseFrameRate := x \<rparr> | None \<Rightarrow> s2)
      in set_currentTime (case ro_startTime r of Some t \<Rightarrow> t | None \<Rightarrow> 0) s3)"

text \<open>
  \<^verbatim>\<open>setData({animationFrames, coordinateMapping})\<close>, called with an options
  object (the parameter has no default: a call without one raises at the destructuring,
  before any effect). The tests are \<^verbatim>\<open>!= undefined\<close>, so \<open>None\<close> stands for an
  omitted, \<^verbatim>\<open>undefined\<close> or \<^verbatim>\<open>null\<close> property.
\<close>

definition setData ::
  "'p option list list option \<Rightarrow> 'v CoordinateMapping option \<Rightarrow>
   ('p, 'v) ChristmasTreeSimulator \<Rightarrow> ('p, 'v) ChristmasTreeSimulator" where
  "setData frames cm s =
     (let s1 = (case frames of Some f \<Rightarrow> s\<lparr> animationFrames := f \<rparr> | None \<Rightarrow> s);
          s2 = (case cm of
                  Some m \<Rightarrow> s1\<lparr> coordinateMapping := Some m, dirtyGeometry := True \<rparr>
                | None \<Rightarrow> s1)
      in set_currentTime 0 s2)"

definition clearDirty ::
  "('p, 'v) ChristmasTreeSimulator \<Rightarrow> bool \<times> ('p, 'v) ChristmasTreeSimulator" where
  "clearDirty s = (dirty s, s\<lparr> dirty := False \<rparr>)"

definition clearGeometryDirty ::
  "('p, 'v) ChristmasTreeSimulator \<Rightarrow> bool \<times> ('p, 'v) ChristmasTreeSimulator" where
  "clearGeometryDirty s = (dirtyGeometry s, s\<lparr> dirtyGeometry := False \<rparr>)"

text \<open>\<^verbatim>\<open>this.currentTime += deltaTime\<close>: the getter, then the setter.\<close>

definition seekRelative ::
  "real \<Rightarrow> ('p, 'v) ChristmasTreeSimulator \<Rightarrow> ('p, 'v) ChristmasTreeSimulator" where
  "seekRelative deltaTime s = set_currentTime (currentTime s + deltaTime) s"

definition processTimeAdvance ::
  "real \<Rightarrow> ('p, 'v) ChristmasTreeSimulator \<Rightarrow> ('p, 'v) ChristmasTreeSimulator" where
  "processTimeAdvance deltaTime s =
     (if isPlaying s then seekRelative (deltaTime * playbackRate s) s else s)"

definition setPlaybackRate ::
  "real option \<Rightarrow> ('p, 'v) ChristmasTreeSimulator \<Rightarrow> ('p, 'v) ChristmasTreeSimulator" where
  "setPlaybackRate rate s =
     (let r = (case rate of Some x \<Rightarrow> x | None \<Rightarrow> 1)
      in if playbackRate s \<noteq> r then s\<lparr> playbackRate := r \<rparr> else s)"

subsection \<open>Sequences of operations\<close>

text \<open>
  What a caller can do to a simulator: the methods, the two setters, and plain writes to
  the fields \<open>isPlaying\<close> and \<open>playbackRate\<close> that a user interface binds to.
  \<open>perform\<close> gives the state after the operation; a result the operation returns is
  dropped, and \<^verbatim>\<open>getCurrentFrameMapped\<close> changes nothing whether it raises or not.
\<close>

datatype ('p, 'v) operation =
    SetCurrentTime real
  | SetCurrentProgress real
  | GetCurrentFrameMapped
  | ResetPlayback reset_options
  | SetData "'p option list list option" "'v CoordinateMapping option"
  | ClearDirty
  | ClearGeometryDirty
  | ProcessTimeAdvance real
  | SeekRelative real
  | SetPlaybackRate "real option"
  | AssignIsPlaying bool
  | AssignPlaybackRate real

fun perform ::
  "('p, 'v) operation \<Rightarrow> ('p, 'v) ChristmasTreeSimulator \<Rightarrow> ('p, 'v) ChristmasTreeSimulator" where
  "perform (SetCurrentTime val) s = set_currentTime val s"
| "perform (SetCurrentProgress p) s = set_currentProgress p s"
| "perform GetCurrentFrameMapped s = s"
| "perform (ResetPlayback r) s = resetPlayback r s"
| "perform (SetData frames cm) s = setData frames cm s"
| "perform ClearDirty s = snd (clearDirty s)"
| "perform ClearGeometryDirty s = snd (clearGeometryDirty s)"
| "perform (ProcessTimeAdvance d) s = processTimeAdvance d s"
| "perform (SeekRelative d) s = seekRelative d s"
| "perform (SetPlaybackRate r) s = setPlaybackRate r s"
| "perform (AssignIsPlaying b) s = s\<lparr> isPlaying := b \<rparr>"
| "perform (AssignPlaybackRate x) s = s\<lparr> playbackRate := x \<rparr>"

fun run ::
  "('p, 'v) operation list \<Rightarrow> ('p, 'v) ChristmasTreeSimulator \<Rightarrow> ('p, 'v) ChristmasTreeSimulator" where
  "run [] s = s"
| "run (op # ops) s = run ops (perform op s)"

text \<open>
  An operation keeps the frame rate as it is unless it is a \<^verbatim>\<open>resetPlayback\<close>
  that passes a \<open>baseFrameRate\<close>.
\<close>

fun keeps_rate :: "('p, 'v) operation \<Rightarrow> bool" where
  "keeps_rate (ResetPlayback r) = (ro_baseFrameRate r = None)"
| "keeps_rate _ = True"

subsection \<open>The time arithmetic on double-precision numbers\<close>

text \<open>
  The language's numbers are IEEE-754 doubles. The definitions of this subsection follow
  the time arithmetic of the class once more, now on \<open>number\<close>: a finite result that
  leaves the double range becomes \<^verbatim>\<open>Infinity\<close> or \<^verbatim>\<open>-Infinity\<close>, and an
  undefined operation gives \<^verbatim>\<open>NaN\<close>. What stays outside is the rounding of a finite
  result to 53 bits, underflow, and the sign of zero (zero is \<open>+0\<close>).

  Round-to-nearest turns a result into an infinity from the magnitude
  \<open>2\<^sup>1\<^sup>0\<^sup>2\<^sup>4 - 2\<^sup>9\<^sup>7\<^sup>0\<close> on, half an ulp above the largest double.
\<close>

definition double_limit :: real where
  "double_limit = 2 ^ 1024 - 2 ^ 970"

definition to_double :: "real \<Rightarrow> number" where
  "to_double x =
     (if double_limit \<le> x then PosInfinity
      else if x \<le> - double_limit then NegInfinity
      else Finite x)"

text \<open>\<^verbatim>\<open>a + b\<close>.\<close>

fun num_add :: "number \<Rightarrow> number \<Rightarrow> number" where
  "num_add NaN b = NaN"
| "num_add a NaN = NaN"
| "num_add (Finite x) (Finite y) = to_double (x + y)"
| "num_add (Finite x) PosInfinity = PosInfinity"
| "num_add (Finite x) NegInfinity = NegInfinity"
| "num_add PosInfinity (Finite y) = PosInfinity"
| "num_add NegInfinity (Finite y) = NegInfinity"
| "num_add PosInfinity PosInfinity = PosInfinity"
| "num_add NegInfinity NegInfinity = NegInfinity"
| "num_add PosInfinity NegInfinity = NaN"
| "num_add NegInfinity PosInfinity = NaN"

text \<open>\<^verbatim>\<open>a * b\<close>; an infinity times zero is \<^verbatim>\<open>NaN\<close>.\<close>

fun num_mul :: "number \<Rightarrow> number \<Rightarrow> number" where
  "num_mul NaN b = NaN"
| "num_mul a NaN = NaN"
| "num_mul (Finite x) (Finite y) = to_double (x * y)"
| "num_mul (Finite x) PosInfinity =
     (if x = 0 then NaN else if 0 < x then PosInfinity else NegInfinity)"
| "num_mul (Finite x) NegInfinity =
     (if x = 0 then NaN else if 0 < x then NegInfinity else PosInfinity)"
| "num_mul PosInfinity (Finite y) =
     (if y = 0 then NaN else if 0 < y then PosInfinity else NegInfinity)"
| "num_mul NegInfinity (Finite y) =
     (if y = 0 then NaN else if 0 < y then NegInfinity else PosInfinity)"
| "num_mul PosInfinity PosInfinity = PosInfinity"
| "num_mul NegInfinity NegInfinity = PosInfinity"
| "num_mul PosInfinity NegInfinity = NegInfinity"
| "num_mul NegInfinity PosInfinity = NegInfinity"

text \<open>
  \<^verbatim>\<open>a % b\<close>: \<^verbatim>\<open>NaN\<close> for an infinite dividend or a zero divisor, the dividend
  itself for an infinite divisor, and the exact remainder otherwise (the remainder of
  two doubles is a double).
\<close>

fun num_rem :: "number \<Rightarrow> number \<Rightarrow> number" where
  "num_rem (Finite x) (Finite y) = (if y = 0 then NaN else Finite (js_rem x y))"
| "num_rem (Finite x) PosInfinity = Finite x"
| "num_rem (Finite x) NegInfinity = Finite x"
| "num_rem a b = NaN"

text \<open>\<^verbatim>\<open>a < b\<close>: false as soon as one side is \<^verbatim>\<open>NaN\<close>.\<close>

fun num_less :: "number \<Rightarrow> number \<Rightarrow> bool" where
  "num_less NaN b = False"
| "num_less a NaN = False"
| "num_less (Finite x) (Finite y) = (x < y)"
| "num_less (Finite x) PosInfinity = True"
| "num_less (Finite x) NegInfinity = False"
| "num_less PosInfinity b = False"
| "num_less NegInfinity (Finite y) = True"
| "num_less NegInfinity PosInfinity = True"
| "num_less NegInfinity NegInfinity = False"

text \<open>\<^verbatim>\<open>Math.max(a, b)\<close>: \<^verbatim>\<open>NaN\<close> as soon as one argument is.\<close>

fun num_max :: "number \<Rightarrow> number \<Rightarrow> number" where
  "num_max NaN b = NaN"
| "num_max a NaN = NaN"
| "num_max (Finite x) (Finite y) = Finite (max x y)"
| "num_max PosInfinity b = PosInfinity"
| "num_max a PosInfinity = PosInfinity"
| "num_max NegInfinity b = b"
| "num_max a NegInfinity = a"


text \<open>
  The getters and the setter again. The configuration (\<open>baseFrameRate\<close>,
  \<open>playbackRate\<close>, the frames) is read from the record and is finite; the stored time
  \<^verbatim>\<open>_currentTime\<close> is the separate \<open>number\<close> \<open>t\<close>, and the record's own real-valued
  time field plays no part here. \<^verbatim>\<open>1 / this.baseFrameRate\<close> is \<^verbatim>\<open>Infinity\<close> at
  rate 0.
\<close>

definition frameDuration64 :: "('p, 'v) ChristmasTreeSimulator \<Rightarrow> number" where
  "frameDuration64 s =
     (if baseFrameRate s = 0 then PosInfinity else to_double (1 / baseFrameRate s))"

definition duration64 :: "('p, 'v) ChristmasTreeSimulator \<Rightarrow> number" where
  "duration64 s =
     num_max (Finite (1 / 1000000000))
       (num_mul (Finite (real (frameCount s))) (frameDuration64 s))"

definition currentTime64 :: "('p, 'v) ChristmasTreeSimulator \<Rightarrow> number \<Rightarrow> number" where
  "currentTime64 s t = num_rem t (duration64 s)"

text \<open>The value the setter stores for \<open>val\<close>.\<close>

definition set_currentTime64 :: "number \<Rightarrow> ('p, 'v) ChristmasTreeSimulator \<Rightarrow> number" where
  "set_currentTime64 val s =
     (if num_less val (Finite 0) then num_add (num_rem val (duration64 s)) (duration64 s)
      else val)"













section \<open>Example objects\<close>

text \<open>
  Concrete simulators and inputs at which the theorems below are instantiated.
  \<open>default_simulator\<close> is what the constructor builds from its defaults.
\<close>

definition default_simulator :: "('p, 'v) ChristmasTreeSimulator" where
  "default_simulator =
     \<lparr> priv_currentTime = 0, inititalPlaybackRate = 1, playbackRate = 1, baseFrameRate = 60,
       isPlaying = False, startPlaying = False, dirty = True, dirtyGeometry = True,
       animationFrames = [], coordinateMapping = None \<rparr>"



definition demo_frames :: "nat option list list" where
  "demo_frames = [[Some 1], [Some 2], [Some 3], [Some 4]]"


definition idle_simulator :: "(nat, nat) ChristmasTreeSimulator" where
  "idle_simulator =
     \<lparr> priv_currentTime = 5, inititalPlaybackRate = 1, playbackRate = 1, baseFrameRate = 60,
       isPlaying = False, startPlaying = False, dirty = False, dirtyGeometry = False,
       animationFrames = [], coordinateMapping = None \<rparr>"

definition demo_mapping :: "nat CoordinateMapping" where
  "demo_mapping = \<lparr> mapping = [7, 8], decoder = (\<lambda>_. Inl TypeError) \<rparr>"





definition skipping_decoder :: CsvCoordinateDecoder where
  "skipping_decoder = \<lparr> xyzColumns = [0, 1, 2], skipRowCount = 1, validationMaxColumns = 10 \<rparr>"

definition wide_heading_csv :: string where
  "wide_heading_csv = ''a,b,c,d,e,f,g,h,i,j,k,l'' @ [CHR 0x0A] @ ''1,2,3''"

definition unmapped_csv :: string where
  "unmapped_csv = ''frame'' @ [CHR 0x0A] @ ''5''"

definition animation_csv :: string where
  "animation_csv = ''r_0,g_0,b_0,r_1,g_1,b_1'' @ [CHR 0x0A] @ ''10,20,30,40,50,60''"

section \<open>Properties of the coordinate decoders\<close>

subsection \<open>The whole-document JSON decoder\<close>

lemma every_all_ok:
  "\<forall>row\<in>set rows. f row = Inr True \<Longrightarrow> every f rows = Inr True"
  by (induction rows) simp_all

text \<open>
  The decoder raises on every non-empty array whose rows all pass the row test, and it
  returns only arrays in which the row test rejected a row.
\<close>

lemma decode_geometry_all_rows_pass:
  "\<forall>row\<in>set geometry. row_check row = Inr True \<Longrightarrow> decode_geometry geometry = Inl JsonShapeError"
  by (simp add: decode_geometry_def every_all_ok)

lemma every_False:
  "every f rows = Inr False \<Longrightarrow> \<exists>row\<in>set rows. f row = Inr False"
  by (induction rows) (auto split: sum.splits if_splits)

lemma decode_geometry_returns:
  "decode_geometry geometry = Inr g \<Longrightarrow>
     g = geometry \<and> (\<exists>row\<in>set geometry. row_check row = Inr False)"
  by (auto simp: decode_geometry_def dest: every_False split: if_splits sum.splits)

text \<open>
  Claim C1 is not what the code does. The document \<^verbatim>\<open>[[1,2,3]]\<close> is a non-empty
  array of 3-element numeric arrays and \<^verbatim>\<open>decode\<close> raises the shape error on it;
  the document \<^verbatim>\<open>[[1,2]]\<close> has a 2-element row and \<^verbatim>\<open>decode\<close> returns it.
\<close>

theorem JsonArrayCoordinateDecoder_inverted:
  "JsonArrayCoordinateDecoder_decode
      (\<lambda>text. Inr (JArray [JArray [JNumber 1, JNumber 2, JNumber 3]])) ''[[1,2,3]]''
     = Inl JsonShapeError
   \<and> JsonArrayCoordinateDecoder_decode
      (\<lambda>text. Inr (JArray [JArray [JNumber 1, JNumber 2]])) ''[[1,2]]''
     = Inr [JArray [JNumber 1, JNumber 2]]"
  by (simp add: JsonArrayCoordinateDecoder_decode_def decode_geometry_def)

subsection \<open>The CSV decoder\<close>

lemma length_split_on: "length (split_on c s) = Suc (length (filter (\<lambda>x. x = c) s))"
  by (induction s) (auto split: list.splits)

lemma fields_commas: "length (split_on CHR '','' line) = Suc (comma_count line)"
  by (simp add: comma_count_def length_split_on)

text \<open>
  Claim C4, as the code has it. If some line after the skipped ones has more than
  \<open>validationMaxColumns\<close> comma-separated fields, that is at least
  \<open>validationMaxColumns\<close> commas, \<^verbatim>\<open>decode\<close> raises the format error for the whole
  input, whatever else the line or the input holds.
\<close>

theorem CsvCoordinateDecoder_rejects_wide_row:
  assumes "line \<in> set (skip_rows (skipRowCount d) (split_on CHR 0x0A inputString))"
    and "int (length (split_on CHR '','' line)) > validationMaxColumns d"
  shows "CsvCoordinateDecoder_decode d inputString = Inl (CsvTooManyColumns (validationMaxColumns d))"
proof -
  have "int (comma_count line) \<ge> validationMaxColumns d"
    using assms(2) by (simp add: fields_commas)
  with assms(1) have "list_ex (\<lambda>line. int (comma_count line) \<ge> validationMaxColumns d)
      (skip_rows (skipRowCount d) (split_on CHR 0x0A inputString))"
    by (auto simp: list_ex_iff)
  then show ?thesis
    by (simp add: CsvCoordinateDecoder_decode_def Let_def)
qed

theorem CsvCoordinateDecoder_rejects_wide_row_witness:
  "''1,2,3,4,5,6,7,8,9,10,11''
     \<in> set (skip_rows (skipRowCount default_CsvCoordinateDecoder)
              (split_on CHR 0x0A ''1,2,3,4,5,6,7,8,9,10,11''))
   \<and> int (length (split_on CHR '','' ''1,2,3,4,5,6,7,8,9,10,11''))
       > validationMaxColumns default_CsvCoordinateDecoder
   \<and> CsvCoordinateDecoder_decode default_CsvCoordinateDecoder ''1,2,3,4,5,6,7,8,9,10,11''
       = Inl (CsvTooManyColumns 10)"
proof -
  have h1: "''1,2,3,4,5,6,7,8,9,10,11''
     \<in> set (skip_rows (skipRowCount default_CsvCoordinateDecoder)
              (split_on CHR 0x0A ''1,2,3,4,5,6,7,8,9,10,11''))"
    by (simp add: skip_rows_def default_CsvCoordinateDecoder_def)
  have h2: "int (length (split_on CHR '','' ''1,2,3,4,5,6,7,8,9,10,11''))
       > validationMaxColumns default_CsvCoordinateDecoder"
    by (simp add: default_CsvCoordinateDecoder_def)
  have m: "validationMaxColumns default_CsvCoordinateDecoder = 10"
    by (simp add: default_CsvCoordinateDecoder_def)
  from CsvCoordinateDecoder_rejects_wide_row [OF h1 h2] h1 h2 m show ?thesis by simp
qed

text \<open>
  The claim as stated fails at a row of exactly \<open>validationMaxColumns\<close> fields: the
  default decoder (ceiling 10) decodes a row of ten fields, which has nine commas.
\<close>

theorem CsvCoordinateDecoder_ten_fields_counterexample:
  "int (length (split_on CHR '','' ''1,2,3,4,5,6,7,8,9,10''))
       \<ge> validationMaxColumns default_CsvCoordinateDecoder
   \<and> CsvCoordinateDecoder_decode default_CsvCoordinateDecoder ''1,2,3,4,5,6,7,8,9,10''
       = Inr [[Finite 1, Finite 2, Finite 3]]"
  by (simp add: CsvCoordinateDecoder_decode_def csv_rows_def default_CsvCoordinateDecoder_def
      skip_rows_def comma_count_def trim_def field_at_def parseFloat_of_def
      parseFloat_def is_whitespace_def is_digit_def digits_value_def digit_value_def
      exponent_of_def scale10_def)

text \<open>
  Claim C9. With \<open>skipRowCount = N > 0\<close> the column check runs on the lines after the
  first \<open>N\<close> only: when each of those has fewer commas than the ceiling, \<^verbatim>\<open>decode\<close>
  returns a geometry, whatever the first \<open>N\<close> lines hold, and the geometry is that of
  the remaining lines alone.
\<close>

theorem CsvCoordinateDecoder_skipped_rows_unchecked:
  assumes "CsvCoordinateDecoder_new xyz n maxColumns = Inr d"
    and "0 < n"
    and "\<forall>line\<in>set (drop (nat n) (split_on CHR 0x0A inputString)).
           int (comma_count line) < maxColumns"
  shows "CsvCoordinateDecoder_decode d inputString
           = Inr (csv_rows d (drop (nat n) (split_on CHR 0x0A inputString)))"
proof -
  have d: "skipRowCount d = n" "validationMaxColumns d = maxColumns"
    using assms(1) by (auto simp: CsvCoordinateDecoder_new_def split: if_splits)
  let ?lines = "skip_rows (skipRowCount d) (split_on CHR 0x0A inputString)"
  have l: "?lines = drop (nat n) (split_on CHR 0x0A inputString)"
    using assms(2) d by (simp add: skip_rows_def)
  have "\<not> list_ex (\<lambda>line. int (comma_count line) \<ge> validationMaxColumns d) ?lines"
    using assms(3) d unfolding l by (auto simp: list_ex_iff)
  then show ?thesis
    unfolding l [symmetric] by (simp add: CsvCoordinateDecoder_decode_def Let_def)
qed

lemma wide_heading_lines:
  "split_on CHR 0x0A wide_heading_csv = [''a,b,c,d,e,f,g,h,i,j,k,l'', ''1,2,3'']"
  by (simp add: wide_heading_csv_def)

lemma new_skipping: "CsvCoordinateDecoder_new [0, 1, 2] 1 10 = Inr skipping_decoder"
  by (simp add: CsvCoordinateDecoder_new_def skipping_decoder_def)

theorem CsvCoordinateDecoder_skipped_rows_unchecked_witness:
  "CsvCoordinateDecoder_new [0, 1, 2] 1 10 = Inr skipping_decoder
   \<and> int (comma_count (hd (split_on CHR 0x0A wide_heading_csv))) \<ge> 10
   \<and> CsvCoordinateDecoder_decode skipping_decoder wide_heading_csv
       = Inr [[Finite 1, Finite 2, Finite 3]]"
proof -
  have h2: "\<forall>line\<in>set (drop (nat 1) (split_on CHR 0x0A wide_heading_csv)).
           int (comma_count line) < 10"
    by (simp add: wide_heading_lines) (simp add: comma_count_def)
  have w: "int (comma_count (hd (split_on CHR 0x0A wide_heading_csv))) \<ge> 10"
    by (simp add: wide_heading_lines) (simp add: comma_count_def)
  have r: "csv_rows skipping_decoder (drop (nat 1) (split_on CHR 0x0A wide_heading_csv))
      = [[Finite 1, Finite 2, Finite 3]]"
    by (simp add: wide_heading_lines)
       (simp add: csv_rows_def skipping_decoder_def trim_def field_at_def parseFloat_of_def
          parseFloat_def is_whitespace_def is_digit_def digits_value_def digit_value_def
          exponent_of_def scale10_def)
  have "CsvCoordinateDecoder_decode skipping_decoder wide_heading_csv
      = Inr (csv_rows skipping_decoder (drop (nat 1) (split_on CHR 0x0A wide_heading_csv)))"
    by (rule CsvCoordinateDecoder_skipped_rows_unchecked [OF new_skipping _ h2]) simp
  with new_skipping w r show ?thesis by simp
qed

section \<open>Properties of the coordinate mapping\<close>

text \<open>
  Claim C8. \<open>idxToCoord\<close> is a total function of the held array, the integer index
  and the default (it has no raising branch): inside \<open>[0, length)\<close> it returns the
  element at the index, outside it returns the default, and index 999 gives the default
  for every held array of fewer than 1000 entries.
\<close>

theorem idxToCoord_total:
  "(0 \<le> idx \<and> idx < int (length (mapping m)) \<longrightarrow> idxToCoord m idx d = Some (mapping m ! nat idx))
   \<and> (\<not> (0 \<le> idx \<and> idx < int (length (mapping m))) \<longrightarrow> idxToCoord m idx d = d)
   \<and> (length (mapping m) < 1000 \<longrightarrow> idxToCoord m 999 d = d)"
  by (auto simp: idxToCoord_def)

theorem idxToCoord_total_witness:
  "idxToCoord \<lparr> mapping = [[1, 2, 3], [4, 5, 6 :: int]], decoder = (\<lambda>_. Inl TypeError) \<rparr> 1 (Some []) = Some [4, 5, 6]
   \<and> idxToCoord \<lparr> mapping = [[1, 2, 3], [4, 5, 6 :: int]], decoder = (\<lambda>_. Inl TypeError) \<rparr> (- 1) (Some []) = Some []
   \<and> idxToCoord \<lparr> mapping = [[1, 2, 3], [4, 5, 6 :: int]], decoder = (\<lambda>_. Inl TypeError) \<rparr> 2 None = None
   \<and> idxToCoord \<lparr> mapping = [[1, 2, 3], [4, 5, 6 :: int]], decoder = (\<lambda>_. Inl TypeError) \<rparr> 999 (Some []) = Some []"
  using idxToCoord_total [of 1 "\<lparr> mapping = [[1, 2, 3], [4, 5, 6 :: int]], decoder = (\<lambda>_. Inl TypeError) \<rparr>" "Some []"]
    idxToCoord_total [of "- 1" "\<lparr> mapping = [[1, 2, 3], [4, 5, 6 :: int]], decoder = (\<lambda>_. Inl TypeError) \<rparr>" "Some []"]
    idxToCoord_total [of 2 "\<lparr> mapping = [[1, 2, 3], [4, 5, 6 :: int]], decoder = (\<lambda>_. Inl TypeError) \<rparr>" None]
  by simp

section \<open>Properties of the animation decoder\<close>

text \<open>
  Claim C6. The default decoder turns the heading \<^verbatim>\<open>r_0,g_0,b_0,r_1,g_1,b_1\<close> and
  the data row \<^verbatim>\<open>10,20,30,40,50,60\<close> into exactly one frame, the pixels
  \<open>[10, 20, 30]\<close> and \<open>[40, 50, 60]\<close>. The channel positions come from the component
  order: a decoder configured with \<open>b, g, r\<close> gives \<open>[30, 20, 10]\<close> and
  \<open>[60, 50, 40]\<close> on the same input.
\<close>

theorem CsvAnimationDecoder_example:
  "CsvAnimationDecoder_decode default_CsvAnimationDecoder animation_csv
     = Inr [[Some [Some (Finite 10), Some (Finite 20), Some (Finite 30)],
             Some [Some (Finite 40), Some (Finite 50), Some (Finite 60)]]]
   \<and> CsvAnimationDecoder_decode (CsvAnimationDecoder_new 0 [''b'', ''g'', ''r'']) animation_csv
     = Inr [[Some [Some (Finite 30), Some (Finite 20), Some (Finite 10)],
             Some [Some (Finite 60), Some (Finite 50), Some (Finite 40)]]]"
  by (simp add: CsvAnimationDecoder_decode_def default_CsvAnimationDecoder_def animation_csv_def
      CsvAnimationDecoder_new_def skip_rows_def decodeHeadingRow_def heading_column_def
      toLowerCase_def toLowerCase_char_def parseInt10_def array_load_def array_store_def
      sparse_set_def field_at_def parseFloat_of_def
      parseFloat_def is_whitespace_def is_digit_def digits_value_def digit_value_def
      exponent_of_def scale10_def eval_nat_numeral)

section \<open>Properties of the playback controller\<close>

subsection \<open>The remainder operator\<close>

lemma js_rem_zero: "js_rem 0 b = 0"
  by (simp add: js_rem_def js_trunc_def)


lemma js_rem_neg:
  assumes "a < 0" "0 < b"
  shows "- b < js_rem a b \<and> js_rem a b \<le> 0"
proof -
  define q where "q = \<lceil>a / b\<rceil>"
  have "a / b < 0" using assms by (simp add: divide_neg_pos)
  then have eq: "js_rem a b = a - b * of_int q"
    by (simp add: js_rem_def js_trunc_def q_def)
  have "a / b \<le> of_int q" "of_int q - 1 < a / b"
    unfolding q_def by linarith+
  then have "a \<le> of_int q * b" "(of_int q - 1) * b < a"
    using assms(2) by (simp_all add: pos_divide_le_eq pos_less_divide_eq)
  then show ?thesis unfolding eq by (simp add: algebra_simps)
qed



subsection \<open>The duration is positive\<close>

lemma duration_pos: "0 < duration s"
  by (simp add: duration_def max_def)

subsection \<open>What the operations leave alone\<close>

lemma perform_initial:
  "startPlaying (perform op s) = startPlaying s
   \<and> inititalPlaybackRate (perform op s) = inititalPlaybackRate s"
  by (cases op)
     (simp_all add: set_currentTime_def set_currentProgress_def resetPlayback_def Let_def
        setData_def clearDirty_def clearGeometryDirty_def processTimeAdvance_def
        seekRelative_def setPlaybackRate_def split: option.splits)

lemma run_initial:
  "startPlaying (run ops s) = startPlaying s
   \<and> inititalPlaybackRate (run ops s) = inititalPlaybackRate s"
  by (induction ops arbitrary: s) (simp_all add: perform_initial)

lemma perform_keeps_rate:
  "keeps_rate op \<Longrightarrow> baseFrameRate (perform op s) = baseFrameRate s"
  by (cases op)
     (simp_all add: set_currentTime_def set_currentProgress_def resetPlayback_def Let_def
        setData_def clearDirty_def clearGeometryDirty_def processTimeAdvance_def
        seekRelative_def setPlaybackRate_def split: option.splits)

lemma run_keeps_rate:
  "\<forall>op\<in>set ops. keeps_rate op \<Longrightarrow> baseFrameRate (run ops s) = baseFrameRate s"
  by (induction ops arbitrary: s) (simp_all add: perform_keeps_rate)

lemma new_fields:
  "ChristmasTreeSimulator_new opts = Inr s \<Longrightarrow>
     startPlaying s = opt_startPlaying opts
     \<and> inititalPlaybackRate s = opt_inititalPlaybackRate opts
     \<and> baseFrameRate s = opt_baseFrameRate opts"
  by (auto simp: ChristmasTreeSimulator_new_def split: if_splits)

lemma new_default:
  "ChristmasTreeSimulator_new default_options = Inr default_simulator"
  by (simp add: ChristmasTreeSimulator_new_def default_options_def default_simulator_def)

subsection \<open>resetPlayback\<close>

text \<open>
  Claim C2, as the code has it. For a simulator built by the constructor and taken
  through any sequence of operations, \<^verbatim>\<open>resetPlayback()\<close> with every option omitted
  sets \<open>isPlaying\<close> to the constructor's \<open>startPlaying\<close> and \<open>playbackRate\<close> to the
  constructor's initial playback rate, leaves \<open>baseFrameRate\<close> at its current value
  (the constructor's, as long as no earlier \<^verbatim>\<open>resetPlayback\<close> passed a
  \<open>baseFrameRate\<close>), and then writes 0 through the time setter: the stored time is
  0, \<open>dirty\<close> is set, and with a nonzero frame rate the time read is 0.
\<close>

theorem resetPlayback_omitted:
  assumes "ChristmasTreeSimulator_new opts = Inr s0"
  shows "isPlaying (resetPlayback no_reset_options (run ops s0)) = opt_startPlaying opts
     \<and> playbackRate (resetPlayback no_reset_options (run ops s0)) = opt_inititalPlaybackRate opts
     \<and> baseFrameRate (resetPlayback no_reset_options (run ops s0)) = baseFrameRate (run ops s0)
     \<and> ((\<forall>op\<in>set ops. keeps_rate op) \<longrightarrow>
          baseFrameRate (resetPlayback no_reset_options (run ops s0)) = opt_baseFrameRate opts)
     \<and> set_currentTime 0
            ((run ops s0)\<lparr> isPlaying := opt_startPlaying opts,
                            playbackRate := opt_inititalPlaybackRate opts \<rparr>)
          = resetPlayback no_reset_options (run ops s0)
     \<and> priv_currentTime (resetPlayback no_reset_options (run ops s0)) = 0
     \<and> (baseFrameRate (run ops s0) \<noteq> 0 \<longrightarrow>
          currentTime (resetPlayback no_reset_options (run ops s0)) = 0)
     \<and> dirty (resetPlayback no_reset_options (run ops s0))"
proof -
  let ?s = "run ops s0"
  have i: "startPlaying ?s = opt_startPlaying opts"
    "inititalPlaybackRate ?s = opt_inititalPlaybackRate opts"
    using run_initial [of ops s0] new_fields [OF assms] by simp_all
  have r: "(\<forall>op\<in>set ops. keeps_rate op) \<longrightarrow> baseFrameRate ?s = opt_baseFrameRate opts"
    using run_keeps_rate [of ops s0] new_fields [OF assms] by simp
  show ?thesis
    using i r
    by (simp add: resetPlayback_def no_reset_options_def Let_def set_currentTime_def
        currentTime_def js_rem_zero)
qed

theorem resetPlayback_omitted_witness:
  "ChristmasTreeSimulator_new default_options = Inr (default_simulator :: (nat, nat) ChristmasTreeSimulator)
   \<and> isPlaying (resetPlayback no_reset_options
        (run [AssignIsPlaying True, SetPlaybackRate (Some 3), SeekRelative 5]
           (default_simulator :: (nat, nat) ChristmasTreeSimulator))) = False
   \<and> playbackRate (resetPlayback no_reset_options
        (run [AssignIsPlaying True, SetPlaybackRate (Some 3), SeekRelative 5]
           (default_simulator :: (nat, nat) ChristmasTreeSimulator))) = 1
   \<and> baseFrameRate (resetPlayback no_reset_options
        (run [AssignIsPlaying True, SetPlaybackRate (Some 3), SeekRelative 5]
           (default_simulator :: (nat, nat) ChristmasTreeSimulator))) = 60
   \<and> priv_currentTime (resetPlayback no_reset_options
        (run [AssignIsPlaying True, SetPlaybackRate (Some 3), SeekRelative 5]
           (default_simulator :: (nat, nat) ChristmasTreeSimulator))) = 0
   \<and> currentTime (resetPlayback no_reset_options
        (run [AssignIsPlaying True, SetPlaybackRate (Some 3), SeekRelative 5]
           (default_simulator :: (nat, nat) ChristmasTreeSimulator))) = 0"
proof -
  have n: "ChristmasTreeSimulator_new default_options
             = Inr (default_simulator :: (nat, nat) ChristmasTreeSimulator)"
    by (rule new_default)
  have "baseFrameRate
      (run [AssignIsPlaying True, SetPlaybackRate (Some 3), SeekRelative 5]
         (default_simulator :: (nat, nat) ChristmasTreeSimulator))
      = baseFrameRate (default_simulator :: (nat, nat) ChristmasTreeSimulator)"
    by (rule run_keeps_rate) simp
  then have b: "baseFrameRate
      (run [AssignIsPlaying True, SetPlaybackRate (Some 3), SeekRelative 5]
         (default_simulator :: (nat, nat) ChristmasTreeSimulator)) \<noteq> 0"
    by (simp add: default_simulator_def)
  show ?thesis
    using n b resetPlayback_omitted [OF n,
        of "[AssignIsPlaying True, SetPlaybackRate (Some 3), SeekRelative 5]"]
    by (simp add: default_options_def)
qed

text \<open>
  The claim as stated fails for \<open>baseFrameRate\<close>: built with the default rate 60, after
  \<^verbatim>\<open>resetPlayback({baseFrameRate: 30})\<close> a \<^verbatim>\<open>resetPlayback()\<close> leaves the rate
  at 30.
\<close>

theorem resetPlayback_baseFrameRate_counterexample:
  "ChristmasTreeSimulator_new default_options = Inr (default_simulator :: (nat, nat) ChristmasTreeSimulator)
   \<and> opt_baseFrameRate default_options = 60
   \<and> baseFrameRate (resetPlayback no_reset_options
        (run [ResetPlayback (no_reset_options\<lparr> ro_baseFrameRate := Some 30 \<rparr>)]
           (default_simulator :: (nat, nat) ChristmasTreeSimulator))) = 30"
  by (simp add: ChristmasTreeSimulator_new_def default_options_def default_simulator_def
      resetPlayback_def no_reset_options_def Let_def set_currentTime_def)

subsection \<open>Reading the time\<close>












lemma to_double_small: "\<bar>x\<bar> < double_limit \<Longrightarrow> to_double x = Finite x"
  by (auto simp: to_double_def)















text \<open>
  On finite values below the double range the real-valued getters and setter of the
  class are the double ones.
\<close>

lemma duration64_real:
  assumes "baseFrameRate s \<noteq> 0" "\<bar>1 / baseFrameRate s\<bar> < double_limit"
    "\<bar>real (frameCount s) * (1 / baseFrameRate s)\<bar> < double_limit"
  shows "duration64 s = Finite (duration s)"
  using assms
  by (simp add: duration64_def frameDuration64_def duration_def frameDuration_def
      to_double_small del: of_nat_mult)

lemma currentTime64_real:
  assumes "duration64 s = Finite (duration s)"
  shows "currentTime64 s (Finite (priv_currentTime s)) = Finite (currentTime s)"
  using assms duration_pos [of s] by (simp add: currentTime64_def currentTime_def)

lemma set_currentTime64_real:
  assumes "duration64 s = Finite (duration s)" "duration s < double_limit"
  shows "set_currentTime64 (Finite v) s = Finite (priv_currentTime (set_currentTime v s))"
proof (cases "v < 0")
  case True
  have "- duration s < js_rem v (duration s)" "js_rem v (duration s) \<le> 0"
    using js_rem_neg [OF True duration_pos [of s]] by simp_all
  then have "\<bar>js_rem v (duration s) + duration s\<bar> < double_limit"
    using assms(2) by simp
  then show ?thesis
    using True assms(1) duration_pos [of s]
    by (simp add: set_currentTime64_def set_currentTime_def to_double_small)
next
  case False
  then show ?thesis by (simp add: set_currentTime64_def set_currentTime_def)
qed




subsection \<open>The current frame\<close>




subsection \<open>setData\<close>

text \<open>
  Claim C7. Every \<^verbatim>\<open>setData\<close> call stores time 0 (so the time read is 0 with a
  nonzero frame rate) and sets \<open>dirty\<close>; a call that passes a coordinate mapping stores it and sets
  \<open>dirtyGeometry\<close>; a call that passes only animation frames changes nothing but the
  frames, the time and \<open>dirty\<close>: \<open>coordinateMapping\<close> and \<open>dirtyGeometry\<close> stay.
\<close>

theorem setData_effects:
  "priv_currentTime (setData frames cm s) = 0
   \<and> (baseFrameRate s \<noteq> 0 \<longrightarrow> currentTime (setData frames cm s) = 0)
   \<and> dirty (setData frames cm s)
   \<and> (\<forall>m. cm = Some m \<longrightarrow>
         dirtyGeometry (setData frames cm s) \<and> coordinateMapping (setData frames cm s) = Some m)
   \<and> (\<forall>f. frames = Some f \<and> cm = None \<longrightarrow>
         s\<lparr> priv_currentTime := 0, dirty := True, animationFrames := f \<rparr> = setData frames cm s
         \<and> animationFrames (setData frames cm s) = f
         \<and> coordinateMapping (setData frames cm s) = coordinateMapping s
         \<and> dirtyGeometry (setData frames cm s) = dirtyGeometry s)"
  by (simp add: setData_def Let_def set_currentTime_def currentTime_def js_rem_zero
      split: option.splits)

theorem setData_effects_witness:
  "dirtyGeometry (setData None (Some demo_mapping) idle_simulator)
   \<and> coordinateMapping (setData None (Some demo_mapping) idle_simulator) = Some demo_mapping
   \<and> priv_currentTime (setData (Some demo_frames) None idle_simulator) = 0
   \<and> currentTime (setData (Some demo_frames) None idle_simulator) = 0
   \<and> dirty (setData (Some demo_frames) None idle_simulator)
   \<and> animationFrames (setData (Some demo_frames) None idle_simulator) = demo_frames
   \<and> coordinateMapping (setData (Some demo_frames) None idle_simulator) = None
   \<and> \<not> dirtyGeometry (setData (Some demo_frames) None idle_simulator)"
proof -
  have i: "coordinateMapping idle_simulator = None" "\<not> dirtyGeometry idle_simulator"
    "baseFrameRate idle_simulator \<noteq> 0"
    by (simp_all add: idle_simulator_def)
  from setData_effects [of None "Some demo_mapping" idle_simulator]
    setData_effects [of "Some demo_frames" None idle_simulator] i
  show ?thesis by simp
qed

subsection \<open>getCurrentFrameMapped without a coordinate mapping\<close>

lemma array_map_raise:
  "array_map (\<lambda>i p. Inl e) i xs =
     (if \<exists>p. Some p \<in> set xs then Inl e else Inr (replicate (length xs) None))"
proof (induction xs arbitrary: i)
  case Nil
  then show ?case by simp
next
  case (Cons x xs)
  then show ?case by (cases x) auto
qed

lemma first_frame:
  assumes "animationFrames s = [f]" "priv_currentTime s = 0"
  shows "js_index (animationFrames s) (currentFrameIdx s) = Some f"
proof -
  have "currentTime s = 0" using assms(2) by (simp add: currentTime_def js_rem_zero)
  then have "currentFrameIdx s = Some 0"
    using assms(1) by (simp add: currentFrameIdx_def frameCount_def js_rem_zero)
  then show ?thesis using assms(1) by (simp add: js_index_def)
qed

text \<open>
  Claim C10, as the code has it. With \<open>coordinateMapping\<close> \<^verbatim>\<open>null\<close>, frames
  loaded and a nonzero frame rate, \<^verbatim>\<open>getCurrentFrameMapped()\<close> raises when no frame is found at the current
  index and when the current frame holds at least one pixel; on a current frame without
  any pixel (empty, or holes only) the callback never runs and the call returns the
  frame's holes.
\<close>

theorem getCurrentFrameMapped_without_mapping:
  assumes "coordinateMapping s = None" "0 < frameCount s" "baseFrameRate s \<noteq> 0"
  shows "(js_index (animationFrames s) (currentFrameIdx s) = None \<longrightarrow>
            getCurrentFrameMapped s = Inl TypeError)
     \<and> (\<forall>frame. js_index (animationFrames s) (currentFrameIdx s) = Some frame \<longrightarrow>
            getCurrentFrameMapped s =
              (if \<exists>p. Some p \<in> set frame then Inl TypeError
               else Inr (replicate (length frame) None)))"
  using assms by (simp add: getCurrentFrameMapped_def array_map_raise)

theorem getCurrentFrameMapped_without_mapping_witness:
  "coordinateMapping (setData (Some [[Some 255]]) None (default_simulator :: (nat, nat) ChristmasTreeSimulator)) = None
   \<and> 0 < frameCount (setData (Some [[Some 255]]) None (default_simulator :: (nat, nat) ChristmasTreeSimulator))
   \<and> getCurrentFrameMapped (setData (Some [[Some 255]]) None (default_simulator :: (nat, nat) ChristmasTreeSimulator))
       = Inl TypeError"
proof -
  let ?s = "setData (Some [[Some 255]]) None (default_simulator :: (nat, nat) ChristmasTreeSimulator)"
  have h1: "coordinateMapping ?s = None"
    by (simp add: setData_def set_currentTime_def default_simulator_def)
  have h2: "0 < frameCount ?s"
    by (simp add: setData_def set_currentTime_def frameCount_def)
  have f: "js_index (animationFrames ?s) (currentFrameIdx ?s) = Some [Some 255]"
    by (rule first_frame) (simp_all add: setData_def set_currentTime_def)
  have h3: "baseFrameRate ?s \<noteq> 0"
    by (simp add: setData_def set_currentTime_def default_simulator_def)
  from getCurrentFrameMapped_without_mapping [OF h1 h2 h3] f h1 h2 show ?thesis by simp
qed

text \<open>
  The claim as stated fails on a frame without pixels. The animation decoder builds such
  a frame from a file whose heading names no component column; a default simulator given
  these frames has \<open>frameCount = 1\<close> and no mapping, and the call returns the empty
  array.
\<close>

theorem getCurrentFrameMapped_empty_frame_counterexample:
  "CsvAnimationDecoder_decode default_CsvAnimationDecoder unmapped_csv = Inr [[]]
   \<and> ChristmasTreeSimulator_new default_options = Inr (default_simulator :: (pixel, nat) ChristmasTreeSimulator)
   \<and> coordinateMapping (setData (Some [[]]) None (default_simulator :: (pixel, nat) ChristmasTreeSimulator)) = None
   \<and> 0 < frameCount (setData (Some [[]]) None (default_simulator :: (pixel, nat) ChristmasTreeSimulator))
   \<and> getCurrentFrameMapped (setData (Some [[]]) None (default_simulator :: (pixel, nat) ChristmasTreeSimulator))
       = Inr []"
proof -
  let ?s = "setData (Some [[]]) None (default_simulator :: (pixel, nat) ChristmasTreeSimulator)"
  have d: "CsvAnimationDecoder_decode default_CsvAnimationDecoder unmapped_csv = Inr [[]]"
    by (simp add: CsvAnimationDecoder_decode_def default_CsvAnimationDecoder_def unmapped_csv_def
        CsvAnimationDecoder_new_def skip_rows_def decodeHeadingRow_def heading_column_def
        toLowerCase_def toLowerCase_char_def)
  have n: "ChristmasTreeSimulator_new default_options
             = Inr (default_simulator :: (pixel, nat) ChristmasTreeSimulator)"
    by (rule new_default)
  have h1: "coordinateMapping ?s = None"
    by (simp add: setData_def set_currentTime_def default_simulator_def)
  have h2: "0 < frameCount ?s"
    by (simp add: setData_def set_currentTime_def frameCount_def)
  have f: "js_index (animationFrames ?s) (currentFrameIdx ?s) = Some []"
    by (rule first_frame) (simp_all add: setData_def set_currentTime_def)
  have "getCurrentFrameMapped ?s = Inr []"
    using f by (simp add: getCurrentFrameMapped_def)
  with d n h1 h2 show ?thesis by simp
qed

end
